theory Spec2Isabelle
  imports Main "HOL-Library.AList" "HOL-Library.Sublist"
begin

section \<open>JSON values as the Python code sees them\<close>

text \<open>
  \<^verbatim>\<open>json.load\<close> returns \<^verbatim>\<open>None\<close>, a \<^verbatim>\<open>bool\<close>, an \<^verbatim>\<open>int\<close>, a \<^verbatim>\<open>str\<close>,
  a \<^verbatim>\<open>list\<close> or a \<^verbatim>\<open>dict\<close> with string keys. A dictionary keeps its insertion
  order, so it is an association list; lookup is \<^const>\<open>map_of\<close> and assignment to a key is
  \<^const>\<open>AList.update\<close>, which replaces the value in place when the key is there and adds
  the pair at the end when it is not, as a Python \<^verbatim>\<open>dict\<close> does.
  Numbers with a fraction or an exponent (Python \<^verbatim>\<open>float\<close>) are not part of this model.
\<close>

datatype json =
    JNull
  | JBool bool
  | JInt int
  | JStr string
  | JList "json list"
  | JObj "(string \<times> json) list"

text \<open>Python's truth value of an object, as \<^verbatim>\<open>not x\<close> tests it.\<close>

fun truthy :: "json \<Rightarrow> bool" where
  "truthy JNull = False"
| "truthy (JBool b) = b"
| "truthy (JInt i) = (i \<noteq> 0)"
| "truthy (JStr s) = (s \<noteq> [])"
| "truthy (JList xs) = (xs \<noteq> [])"
| "truthy (JObj d) = (d \<noteq> [])"

text \<open>
  Python's \<^verbatim>\<open>==\<close> on these values: \<^verbatim>\<open>True == 1\<close> and \<^verbatim>\<open>False == 0\<close> hold, lists
  compare element by element, dictionaries compare by keys and values whatever the order.
\<close>

fun py_eq :: "json \<Rightarrow> json \<Rightarrow> bool" where
  "py_eq JNull JNull = True"
| "py_eq (JBool a) (JBool b) = (a = b)"
| "py_eq (JBool a) (JInt b) = ((if a then 1 else 0) = b)"
| "py_eq (JInt a) (JBool b) = (a = (if b then 1 else 0))"
| "py_eq (JInt a) (JInt b) = (a = b)"
| "py_eq (JStr a) (JStr b) = (a = b)"
| "py_eq (JList xs) (JList ys) = list_all2 py_eq xs ys"
| "py_eq (JObj xs) (JObj ys) =
     (length (remdups (map fst xs)) = length (remdups (map fst ys)) \<and>
      list_all (\<lambda>(k, v). case map_of ys k of None \<Rightarrow> False | Some w \<Rightarrow> py_eq v w) xs)"
| "py_eq _ _ = False"

section \<open>Exceptions and responses\<close>

text \<open>
  A handler either returns a JSON body (status 200), raises \<^verbatim>\<open>HTTPException\<close> with a
  status code and a detail, or lets another Python exception escape (the framework then
  answers 500).
\<close>

datatype py_exception =
  TypeError | AttributeError | KeyError | ValueError | JSONDecodeError | OSError

datatype failure = HTTPException nat string | Unhandled py_exception

type_synonym response = "failure + json"

section \<open>The Python operations the handlers apply to JSON values\<close>

text \<open>\<^verbatim>\<open>d.get(k, default)\<close> on a dictionary.\<close>

definition dict_get :: "(string \<times> json) list \<Rightarrow> string \<Rightarrow> json \<Rightarrow> json" where
  "dict_get d k dflt = (case map_of d k of None \<Rightarrow> dflt | Some v \<Rightarrow> v)"

text \<open>\<^verbatim>\<open>x.get(k, default)\<close> on any value: only a dictionary has the method.\<close>

definition py_get :: "json \<Rightarrow> string \<Rightarrow> json \<Rightarrow> py_exception + json" where
  "py_get x k dflt = (case x of JObj d \<Rightarrow> Inr (dict_get d k dflt) | _ \<Rightarrow> Inl AttributeError)"

text \<open>
  \<^verbatim>\<open>s in x\<close> for a string \<open>s\<close>: membership in a list (a string equals only the same
  string), key membership in a dictionary, substring test in a string; the other values are
  not containers.
\<close>

fun py_in :: "string \<Rightarrow> json \<Rightarrow> py_exception + bool" where
  "py_in s (JList xs) = Inr (JStr s \<in> set xs)"
| "py_in s (JObj d) = Inr (s \<in> set (map fst d))"
| "py_in s (JStr t) = Inr (sublist s t)"
| "py_in s _ = Inl TypeError"

text \<open>\<^verbatim>\<open>x[s]\<close> for a string \<open>s\<close>: only a dictionary is indexed by a string.\<close>

definition py_getitem :: "json \<Rightarrow> string \<Rightarrow> py_exception + json" where
  "py_getitem x s =
     (case x of
        JObj d \<Rightarrow> (case map_of d s of None \<Rightarrow> Inl KeyError | Some v \<Rightarrow> Inr v)
      | _ \<Rightarrow> Inl TypeError)"

text \<open>
  The elements \<^verbatim>\<open>for t in x\<close> visits: the items of a list, the keys of a dictionary, the
  characters of a string.
\<close>

fun py_iter :: "json \<Rightarrow> py_exception + json list" where
  "py_iter (JList xs) = Inr xs"
| "py_iter (JObj d) = Inr (map (\<lambda>kv. JStr (fst kv)) d)"
| "py_iter (JStr s) = Inr (map (\<lambda>c. JStr [c]) s)"
| "py_iter _ = Inl TypeError"

section \<open>Files and process state\<close>

text \<open>
  A file of the data directory is absent (\<open>None\<close>) or holds text, which either parses as
  JSON or does not. \<^verbatim>\<open>json.dump\<close> writes text that parses back to the value written.
\<close>

datatype content = NotJSON | JSONText json

text \<open>
  How a write of the catalog file ends; the file system decides. Either the text is written
  in full, or \<^verbatim>\<open>open(..., "w")\<close> raises and the file is as it was, or the file is opened
  (which empties it) and \<^verbatim>\<open>json.dump\<close> raises before the text is complete.
\<close>

datatype write_outcome = Written | OpenFails | DumpFails

record files =
  ACTIVITIES_FILE :: "content option"
  TEACHERS_FILE :: "content option"

text \<open>
  The module's globals \<^verbatim>\<open>activities\<close> and \<^verbatim>\<open>_teacher_sessions\<close> (token to username),
  together with the two files.
\<close>

record state = files +
  activities :: json
  teacher_sessions :: "string \<rightharpoonup> json"

section \<open>Persistence accessors\<close>

definition load_activities :: "'a files_scheme \<Rightarrow> py_exception + json" where
  "load_activities fs =
     (case ACTIVITIES_FILE fs of
        None \<Rightarrow> Inr (JObj [])
      | Some NotJSON \<Rightarrow> Inl JSONDecodeError
      | Some (JSONText v) \<Rightarrow> Inr v)"

text \<open>
  \<open>save_activities\<close> returns the exception it raises, if any, and the state it leaves. The
  text of a dictionary cut short does not parse.
\<close>

definition save_activities :: "write_outcome \<Rightarrow> json \<Rightarrow> state \<Rightarrow> py_exception option \<times> state" where
  "save_activities w a s =
     (case w of
        Written \<Rightarrow> (None, s\<lparr>ACTIVITIES_FILE := Some (JSONText a)\<rparr>)
      | OpenFails \<Rightarrow> (Some OSError, s)
      | DumpFails \<Rightarrow> (Some OSError, s\<lparr>ACTIVITIES_FILE := Some NotJSON\<rparr>))"

definition load_teachers :: "'a files_scheme \<Rightarrow> py_exception + json" where
  "load_teachers fs =
     (case TEACHERS_FILE fs of
        None \<Rightarrow> Inr (JList [])
      | Some NotJSON \<Rightarrow> Inl JSONDecodeError
      | Some (JSONText v) \<Rightarrow> py_get v ''teachers'' (JList []))"

text \<open>Module initialisation: \<^verbatim>\<open>activities = load_activities()\<close>, no session yet.\<close>

definition startup :: "files \<Rightarrow> py_exception + state" where
  "startup fs =
     (case load_activities fs of
        Inl e \<Rightarrow> Inl e
      | Inr a \<Rightarrow> Inr \<lparr>ACTIVITIES_FILE = ACTIVITIES_FILE fs, TEACHERS_FILE = TEACHERS_FILE fs,
                     activities = a, teacher_sessions = Map.empty\<rparr>)"

section \<open>Request handlers\<close>

definition get_activities :: "state \<Rightarrow> response \<times> state" where
  "get_activities s = (Inr (activities s), s)"

text \<open>
  The loop of \<^verbatim>\<open>admin_login\<close> over the teachers: \<open>Inr True\<close> when an entry matches
  (the loop returns there), \<open>Inr False\<close> when the loop runs to its end.
\<close>

fun match_teacher :: "json list \<Rightarrow> json \<Rightarrow> json \<Rightarrow> py_exception + bool" where
  "match_teacher [] username password = Inr False"
| "match_teacher (t # ts) username password =
     (case py_get t ''username'' JNull of
        Inl e \<Rightarrow> Inl e
      | Inr tu \<Rightarrow>
          if py_eq tu username then
            (case py_get t ''password'' JNull of
               Inl e \<Rightarrow> Inl e
             | Inr tp \<Rightarrow>
                 if py_eq tp password then Inr True
                 else match_teacher ts username password)
          else match_teacher ts username password)"

text \<open>
  \<open>uuid4\<close> is the string \<^verbatim>\<open>str(uuid.uuid4())\<close> yields in this call; the code stores it
  without looking whether the session registry already has it.
\<close>

definition admin_login :: "(string \<times> json) list \<Rightarrow> string \<Rightarrow> state \<Rightarrow> response \<times> state" where
  "admin_login payload uuid4 s =
     (let username = dict_get payload ''username'' JNull;
          password = dict_get payload ''password'' JNull
      in if \<not> truthy username \<or> \<not> truthy password then
           (Inl (HTTPException 400 ''username and password required''), s)
         else
           (case load_teachers s of
              Inl e \<Rightarrow> (Inl (Unhandled e), s)
            | Inr teachers \<Rightarrow>
               (case py_iter teachers of
                  Inl e \<Rightarrow> (Inl (Unhandled e), s)
                | Inr ts \<Rightarrow>
                   (case match_teacher ts username password of
                      Inl e \<Rightarrow> (Inl (Unhandled e), s)
                    | Inr True \<Rightarrow>
                        (Inr (JObj [(''token'', JStr uuid4)]),
                         s\<lparr>teacher_sessions := (teacher_sessions s)(uuid4 \<mapsto> username)\<rparr>)
                    | Inr False \<Rightarrow> (Inl (HTTPException 401 ''invalid credentials''), s)))))"

text \<open>
  \<^verbatim>\<open>activity.setdefault("participants", []).append(email)\<close>: the list under the key, or a
  new empty list stored under it, gets the email at its end; a value that is not a list has
  no \<^verbatim>\<open>append\<close>.
\<close>

definition setdefault_append :: "json \<Rightarrow> string \<Rightarrow> py_exception + json" where
  "setdefault_append activity email =
     (case activity of
        JObj r \<Rightarrow>
          (case map_of r ''participants'' of
             None \<Rightarrow> Inr (JObj (AList.update ''participants'' (JList [JStr email]) r))
           | Some (JList xs) \<Rightarrow>
               Inr (JObj (AList.update ''participants'' (JList (xs @ [JStr email])) r))
           | Some _ \<Rightarrow> Inl AttributeError)
      | _ \<Rightarrow> Inl AttributeError)"

text \<open>
  \<^verbatim>\<open>activity["participants"].remove(email)\<close>: the first element equal to the email
  leaves the list.
\<close>

definition getitem_remove :: "json \<Rightarrow> string \<Rightarrow> py_exception + json" where
  "getitem_remove activity email =
     (case activity of
        JObj r \<Rightarrow>
          (case map_of r ''participants'' of
             None \<Rightarrow> Inl KeyError
           | Some (JList xs) \<Rightarrow>
               if JStr email \<in> set xs
               then Inr (JObj (AList.update ''participants'' (JList (remove1 (JStr email) xs)) r))
               else Inl ValueError
           | Some _ \<Rightarrow> Inl AttributeError)
      | _ \<Rightarrow> Inl TypeError)"

text \<open>
  The record is mutated in place, so the registry holds the changed record under the same
  name. That happens before \<open>save_activities\<close> is called, and nothing undoes it when the
  write raises.
\<close>

definition store_activity :: "json \<Rightarrow> string \<Rightarrow> json \<Rightarrow> json" where
  "store_activity registry activity_name activity =
     (case registry of
        JObj acts \<Rightarrow> JObj (AList.update activity_name activity acts)
      | other \<Rightarrow> other)"

definition signup_for_activity ::
  "string \<Rightarrow> string \<Rightarrow> string option \<Rightarrow> write_outcome \<Rightarrow> state \<Rightarrow> response \<times> state" where
  "signup_for_activity activity_name email x_admin_token w s =
     (if (case x_admin_token of None \<Rightarrow> True
          | Some t \<Rightarrow> t = [] \<or> teacher_sessions s t = None)
      then (Inl (HTTPException 401 ''admin token required''), s)
      else
        (case py_in activity_name (activities s) of
           Inl e \<Rightarrow> (Inl (Unhandled e), s)
         | Inr False \<Rightarrow> (Inl (HTTPException 404 ''Activity not found''), s)
         | Inr True \<Rightarrow>
            (case py_getitem (activities s) activity_name of
               Inl e \<Rightarrow> (Inl (Unhandled e), s)
             | Inr activity \<Rightarrow>
                (case py_get activity ''participants'' (JList []) of
                   Inl e \<Rightarrow> (Inl (Unhandled e), s)
                 | Inr ps \<Rightarrow>
                    (case py_in email ps of
                       Inl e \<Rightarrow> (Inl (Unhandled e), s)
                     | Inr True \<Rightarrow>
                         (Inl (HTTPException 400 ''Student is already signed up''), s)
                     | Inr False \<Rightarrow>
                        (case setdefault_append activity email of
                           Inl e \<Rightarrow> (Inl (Unhandled e), s)
                         | Inr activity' \<Rightarrow>
                            (let registry = store_activity (activities s) activity_name activity'
                             in case save_activities w registry (s\<lparr>activities := registry\<rparr>) of
                                  (Some e, s') \<Rightarrow> (Inl (Unhandled e), s')
                                | (None, s') \<Rightarrow>
                                    (Inr (JObj [(''message'',
                                       JStr (''Signed up '' @ email @ '' for '' @ activity_name))]),
                                     s'))))))))"

definition unregister_from_activity ::
  "string \<Rightarrow> string \<Rightarrow> string option \<Rightarrow> write_outcome \<Rightarrow> state \<Rightarrow> response \<times> state" where
  "unregister_from_activity activity_name email x_admin_token w s =
     (if (case x_admin_token of None \<Rightarrow> True
          | Some t \<Rightarrow> t = [] \<or> teacher_sessions s t = None)
      then (Inl (HTTPException 401 ''admin token required''), s)
      else
        (case py_in activity_name (activities s) of
           Inl e \<Rightarrow> (Inl (Unhandled e), s)
         | Inr False \<Rightarrow> (Inl (HTTPException 404 ''Activity not found''), s)
         | Inr True \<Rightarrow>
            (case py_getitem (activities s) activity_name of
               Inl e \<Rightarrow> (Inl (Unhandled e), s)
             | Inr activity \<Rightarrow>
                (case py_get activity ''participants'' (JList []) of
                   Inl e \<Rightarrow> (Inl (Unhandled e), s)
                 | Inr ps \<Rightarrow>
                    (case py_in email ps of
                       Inl e \<Rightarrow> (Inl (Unhandled e), s)
                     | Inr False \<Rightarrow>
                         (Inl (HTTPException 400 ''Student is not signed up for this activity''), s)
                     | Inr True \<Rightarrow>
                        (case getitem_remove activity email of
                           Inl e \<Rightarrow> (Inl (Unhandled e), s)
                         | Inr activity' \<Rightarrow>
                            (let registry = store_activity (activities s) activity_name activity'
                             in case save_activities w registry (s\<lparr>activities := registry\<rparr>) of
                                  (Some e, s') \<Rightarrow> (Inl (Unhandled e), s')
                                | (None, s') \<Rightarrow>
                                    (Inr (JObj [(''message'',
                                       JStr (''Unregistered '' @ email @ '' from '' @ activity_name))]),
                                     s'))))))))"

section \<open>Requests and their sequences\<close>

text \<open>
  A request carries what the handler gets from outside: its parameters, the string that
  \<^verbatim>\<open>uuid4\<close> yields for a login, the way the write ends for a signup or an unregister.
\<close>

datatype request =
    GetActivities
  | AdminLogin "(string \<times> json) list" string
  | Signup string string "string option" write_outcome
  | Unregister string string "string option" write_outcome

fun handle :: "request \<Rightarrow> state \<Rightarrow> response \<times> state" where
  "handle GetActivities s = get_activities s"
| "handle (AdminLogin payload uuid4) s = admin_login payload uuid4 s"
| "handle (Signup activity_name email tok w) s =
     signup_for_activity activity_name email tok w s"
| "handle (Unregister activity_name email tok w) s =
     unregister_from_activity activity_name email tok w s"

fun serve :: "request list \<Rightarrow> state \<Rightarrow> state" where
  "serve [] s = s"
| "serve (r # rs) s = serve rs (snd (handle r s))"

section \<open>Vocabulary of the properties\<close>

text \<open>The status code the client sees.\<close>

fun status :: "response \<Rightarrow> nat" where
  "status (Inr body) = 200"
| "status (Inl (HTTPException code detail)) = code"
| "status (Inl (Unhandled e)) = 500"

text \<open>The handler returned a body instead of raising.\<close>

definition succeeded :: "response \<Rightarrow> bool" where
  "succeeded r = (case r of Inr body \<Rightarrow> True | Inl f \<Rightarrow> False)"

text \<open>The names of the activities: the keys of the registry, in its order.\<close>

definition activity_names :: "json \<Rightarrow> string list" where
  "activity_names registry = (case registry of JObj acts \<Rightarrow> map fst acts | _ \<Rightarrow> [])"

text \<open>
  What \<^verbatim>\<open>activities[name].get("participants", [])\<close> reads, when the registry is a
  dictionary that has the name and the record under it is a dictionary.
\<close>

definition participants_of :: "json \<Rightarrow> string \<Rightarrow> json option" where
  "participants_of registry activity_name =
     (case registry of
        JObj acts \<Rightarrow>
          (case map_of acts activity_name of
             Some (JObj r) \<Rightarrow> Some (dict_get r ''participants'' (JList []))
           | _ \<Rightarrow> None)
      | _ \<Rightarrow> None)"

text \<open>The attribute \<open>k\<close> of the record of an activity, if the record has it.\<close>

definition attribute_of :: "json \<Rightarrow> string \<Rightarrow> string \<Rightarrow> json option" where
  "attribute_of registry activity_name k =
     (case registry of
        JObj acts \<Rightarrow>
          (case map_of acts activity_name of
             Some (JObj r) \<Rightarrow> map_of r k
           | _ \<Rightarrow> None)
      | _ \<Rightarrow> None)"

text \<open>The emails of a participants list: its strings, in order.\<close>

fun emails :: "json list \<Rightarrow> string list" where
  "emails [] = []"
| "emails (JStr e # ps) = e # emails ps"
| "emails (p # ps) = emails ps"

text \<open>No email occurs twice in the participants list of a record.\<close>

definition unique_in_record :: "json \<Rightarrow> bool" where
  "unique_in_record activity =
     (case activity of
        JObj r \<Rightarrow>
          (case map_of r ''participants'' of
             Some (JList ps) \<Rightarrow> distinct (emails ps)
           | _ \<Rightarrow> True)
      | _ \<Rightarrow> True)"

text \<open>The invariant of the registry: that holds of every record.\<close>

definition unique_participants :: "json \<Rightarrow> bool" where
  "unique_participants registry =
     (case registry of
        JObj acts \<Rightarrow> list_all (\<lambda>kv. unique_in_record (snd kv)) acts
      | _ \<Rightarrow> True)"

text \<open>A teacher entry that has exactly this username and this password.\<close>

definition credentials_match :: "string \<Rightarrow> string \<Rightarrow> json \<Rightarrow> bool" where
  "credentials_match u p t =
     (case t of
        JObj d \<Rightarrow> map_of d ''username'' = Some (JStr u) \<and> map_of d ''password'' = Some (JStr p)
      | _ \<Rightarrow> False)"

text \<open>A teacher entry whose username and password are \<^verbatim>\<open>==\<close> to the given values.\<close>

definition credentials_equal :: "json \<Rightarrow> json \<Rightarrow> json \<Rightarrow> bool" where
  "credentials_equal username password t =
     (case t of
        JObj d \<Rightarrow> py_eq (dict_get d ''username'' JNull) username \<and>
                  py_eq (dict_get d ''password'' JNull) password
      | _ \<Rightarrow> False)"

definition is_object :: "json \<Rightarrow> bool" where
  "is_object x = (case x of JObj d \<Rightarrow> True | _ \<Rightarrow> False)"

text \<open>Requests that change the registry when they succeed.\<close>

fun mutating :: "request \<Rightarrow> bool" where
  "mutating (Signup activity_name email tok w) = True"
| "mutating (Unregister activity_name email tok w) = True"
| "mutating r = False"


section \<open>A running example\<close>

text \<open>
  One teacher, two activities (the second without a participants attribute), one open
  session, the catalog file in step with the registry.
\<close>

definition example_teachers :: json where
  "example_teachers =
     JObj [(''teachers'',
            JList [JObj [(''username'', JStr ''ms1''), (''password'', JStr ''pass123'')]])]"

text \<open>A teachers file whose only entry has a number as username and \<^verbatim>\<open>true\<close> as password.\<close>

definition numeric_teachers :: json where
  "numeric_teachers =
     JObj [(''teachers'',
            JList [JObj [(''username'', JInt 7), (''password'', JBool True)]])]"

definition example_registry :: json where
  "example_registry =
     JObj [(''Chess Club'',
            JObj [(''description'', JStr ''Learn strategies''),
                  (''participants'', JList [JStr ''a@x.edu''])]),
           (''Art'', JObj [(''max_participants'', JInt 12)])]"

definition example_state :: state where
  "example_state =
     \<lparr>ACTIVITIES_FILE = Some (JSONText example_registry),
      TEACHERS_FILE = Some (JSONText example_teachers),
      activities = example_registry,
      teacher_sessions = [''t0'' \<mapsto> JStr ''ms1'']\<rparr>"


section \<open>What the two mutating handlers do\<close>

lemma save_activities_keeps:
  "activities (snd (save_activities w a s)) = activities s"
  "teacher_sessions (snd (save_activities w a s)) = teacher_sessions s"
  "TEACHERS_FILE (snd (save_activities w a s)) = TEACHERS_FILE s"
  by (cases w; simp add: save_activities_def)+

lemma save_activities_result:
  "fst (save_activities w a s) = (if w = Written then None else Some OSError)"
  by (cases w) (simp_all add: save_activities_def)


text \<open>
  The answer and the state once the registry holds the changed record: the message after a
  write that went through, the exception of the write otherwise.
\<close>

lemma after_change:
  "(case save_activities w a s of
      (Some x, s') \<Rightarrow> (Inl (Unhandled x), s')
    | (None, s') \<Rightarrow> (Inr m, s')) =
   ((if w = Written then Inr m else Inl (Unhandled OSError)), snd (save_activities w a s))"
  by (cases w) (simp_all add: save_activities_def)

lemma signup_effect:
  "(snd (signup_for_activity A e tok w s) = s \<and>
    \<not> succeeded (fst (signup_for_activity A e tok w s)) \<and>
    fst (signup_for_activity A e tok w s) \<noteq> Inl (Unhandled OSError)) \<or>
   (\<exists>acts r ps. activities s = JObj acts \<and> map_of acts A = Some (JObj r) \<and>
      dict_get r ''participants'' (JList []) = JList ps \<and> JStr e \<notin> set ps \<and>
      signup_for_activity A e tok w s =
        ((if w = Written
          then Inr (JObj [(''message'', JStr (''Signed up '' @ e @ '' for '' @ A))])
          else Inl (Unhandled OSError)),
         snd (save_activities w
           (JObj (AList.update A (JObj (AList.update ''participants'' (JList (ps @ [JStr e])) r)) acts))
           (s\<lparr>activities :=
               JObj (AList.update A (JObj (AList.update ''participants'' (JList (ps @ [JStr e])) r)) acts)\<rparr>))))"
  by (auto simp: signup_for_activity_def Let_def py_getitem_def py_get_def dict_get_def
       setdefault_append_def store_activity_def after_change succeeded_def
       split: if_splits sum.splits bool.splits json.splits option.splits)

lemma unregister_effect:
  "(snd (unregister_from_activity A e tok w s) = s \<and>
    \<not> succeeded (fst (unregister_from_activity A e tok w s)) \<and>
    fst (unregister_from_activity A e tok w s) \<noteq> Inl (Unhandled OSError)) \<or>
   (\<exists>acts r ps. activities s = JObj acts \<and> map_of acts A = Some (JObj r) \<and>
      dict_get r ''participants'' (JList []) = JList ps \<and> JStr e \<in> set ps \<and>
      unregister_from_activity A e tok w s =
        ((if w = Written
          then Inr (JObj [(''message'', JStr (''Unregistered '' @ e @ '' from '' @ A))])
          else Inl (Unhandled OSError)),
         snd (save_activities w
           (JObj (AList.update A (JObj (AList.update ''participants'' (JList (remove1 (JStr e) ps)) r)) acts))
           (s\<lparr>activities :=
               JObj (AList.update A (JObj (AList.update ''participants'' (JList (remove1 (JStr e) ps)) r)) acts)\<rparr>))))"
  by (auto simp: unregister_from_activity_def Let_def py_getitem_def py_get_def dict_get_def
       getitem_remove_def store_activity_def after_change succeeded_def
       split: if_splits sum.splits bool.splits json.splits option.splits)

text \<open>What a signup does when the token is good and the participants are a list.\<close>

lemma signup_run:
  assumes "teacher_sessions s t = Some u" "t \<noteq> []"
    and "activities s = JObj acts" "map_of acts A = Some (JObj r)"
    and "dict_get r ''participants'' (JList []) = JList ps"
  shows "signup_for_activity A e (Some t) w s =
     (if JStr e \<in> set ps then (Inl (HTTPException 400 ''Student is already signed up''), s)
      else ((if w = Written
             then Inr (JObj [(''message'', JStr (''Signed up '' @ e @ '' for '' @ A))])
             else Inl (Unhandled OSError)),
            snd (save_activities w
              (JObj (AList.update A (JObj (AList.update ''participants'' (JList (ps @ [JStr e])) r)) acts))
              (s\<lparr>activities :=
                  JObj (AList.update A (JObj (AList.update ''participants'' (JList (ps @ [JStr e])) r)) acts)\<rparr>))))"
proof -
  have "A \<in> fst ` set acts" using assms(4) by (force dest: map_of_SomeD)
  then show ?thesis using assms
    by (auto simp: signup_for_activity_def Let_def py_getitem_def py_get_def dict_get_def
       setdefault_append_def store_activity_def after_change split: option.splits json.splits)
qed

lemma unregister_run:
  assumes "teacher_sessions s t = Some u" "t \<noteq> []"
    and "activities s = JObj acts" "map_of acts A = Some (JObj r)"
    and "dict_get r ''participants'' (JList []) = JList ps"
  shows "unregister_from_activity A e (Some t) w s =
     (if JStr e \<notin> set ps
      then (Inl (HTTPException 400 ''Student is not signed up for this activity''), s)
      else ((if w = Written
             then Inr (JObj [(''message'', JStr (''Unregistered '' @ e @ '' from '' @ A))])
             else Inl (Unhandled OSError)),
            snd (save_activities w
              (JObj (AList.update A (JObj (AList.update ''participants'' (JList (remove1 (JStr e) ps)) r)) acts))
              (s\<lparr>activities :=
                  JObj (AList.update A (JObj (AList.update ''participants'' (JList (remove1 (JStr e) ps)) r)) acts)\<rparr>))))"
proof -
  have "A \<in> fst ` set acts" using assms(4) by (force dest: map_of_SomeD)
  then show ?thesis using assms
    by (auto simp: unregister_from_activity_def Let_def py_getitem_def py_get_def dict_get_def
       getitem_remove_def store_activity_def after_change split: option.splits json.splits)
qed

lemma participants_ofD:
  "participants_of registry A = Some v \<Longrightarrow>
   \<exists>acts r. registry = JObj acts \<and> map_of acts A = Some (JObj r) \<and>
     dict_get r ''participants'' (JList []) = v"
  by (auto simp: participants_of_def split: json.splits option.splits)

lemma participants_of_update:
  "participants_of (JObj (AList.update A (JObj (AList.update ''participants'' v r)) acts)) A = Some v"
  by (simp add: participants_of_def dict_get_def update_conv')

lemma admin_login_registry:
  "activities (snd (admin_login payload uuid4 s)) = activities s \<and>
   ACTIVITIES_FILE (snd (admin_login payload uuid4 s)) = ACTIVITIES_FILE s"
  by (auto simp: admin_login_def Let_def split: sum.splits bool.splits)

lemma py_iter_raises: "py_iter x = Inl e \<Longrightarrow> e = TypeError"
  by (cases x) simp_all

lemma match_teacher_raises: "match_teacher ts u p = Inl e \<Longrightarrow> e = AttributeError"
  by (induction ts) (auto simp: py_get_def split: json.splits if_splits)

lemma load_teachers_raises:
  "load_teachers fs = Inl e \<Longrightarrow> e = JSONDecodeError \<or> e = AttributeError"
  by (auto simp: load_teachers_def py_get_def split: option.splits content.splits json.splits)

lemma admin_login_no_write_failure:
  "fst (admin_login payload uuid4 s) \<noteq> Inl (Unhandled OSError)"
  by (auto simp: admin_login_def Let_def split: sum.splits bool.splits
      dest: py_iter_raises match_teacher_raises load_teachers_raises)

lemma handle_not_mutating:
  "\<not> mutating req \<Longrightarrow> activities (snd (handle req s)) = activities s \<and>
     ACTIVITIES_FILE (snd (handle req s)) = ACTIVITIES_FILE s"
  by (cases req) (simp_all add: get_activities_def admin_login_registry)

text \<open>
  A signup or an unregister either leaves the state alone, with an answer that is neither the
  message nor the exception of the write, or rewrites one list of one record and then
  writes.
\<close>

lemma effect_weaken:
  assumes "R = ((if w = Written then Inr m else Inl (Unhandled OSError)),
                snd (save_activities w reg (s\<lparr>activities := reg\<rparr>)))"
  shows "succeeded (fst R) = (w = Written) \<and>
         (w \<noteq> Written \<longrightarrow> fst R = Inl (Unhandled OSError)) \<and>
         snd R = snd (save_activities w reg (s\<lparr>activities := reg\<rparr>))"
  by (simp add: assms succeeded_def)

lemma mutation_effect:
  assumes "req = Signup A e tok w \<or> req = Unregister A e tok w"
  obtains (same) "snd (handle req s) = s" and "\<not> succeeded (fst (handle req s))"
      and "fst (handle req s) \<noteq> Inl (Unhandled OSError)"
    | (changed) acts r v ps where "activities s = JObj acts" and "map_of acts A = Some (JObj r)"
      and "dict_get r ''participants'' (JList []) = JList ps"
      and "JStr e \<notin> set ps \<and> v = JList (ps @ [JStr e]) \<or> v = JList (remove1 (JStr e) ps)"
      and "succeeded (fst (handle req s)) = (w = Written)"
      and "w \<noteq> Written \<longrightarrow> fst (handle req s) = Inl (Unhandled OSError)"
      and "snd (handle req s) =
        snd (save_activities w
           (JObj (AList.update A (JObj (AList.update ''participants'' v r)) acts))
           (s\<lparr>activities :=
               JObj (AList.update A (JObj (AList.update ''participants'' v r)) acts)\<rparr>))"
  using assms
proof
  assume req: "req = Signup A e tok w"
  from signup_effect [of A e tok w s] show ?thesis
  proof (elim disjE exE conjE)
    assume "snd (signup_for_activity A e tok w s) = s"
      "\<not> succeeded (fst (signup_for_activity A e tok w s))"
      "fst (signup_for_activity A e tok w s) \<noteq> Inl (Unhandled OSError)"
    then show ?thesis by (intro same) (simp_all add: req)
  next
    fix acts r ps
    assume a: "activities s = JObj acts" "map_of acts A = Some (JObj r)"
      "dict_get r ''participants'' (JList []) = JList ps"
      and e: "JStr e \<notin> set ps"
      and R: "signup_for_activity A e tok w s =
          ((if w = Written
            then Inr (JObj [(''message'', JStr (''Signed up '' @ e @ '' for '' @ A))])
            else Inl (Unhandled OSError)),
           snd (save_activities w
             (JObj (AList.update A (JObj (AList.update ''participants'' (JList (ps @ [JStr e])) r)) acts))
             (s\<lparr>activities :=
                 JObj (AList.update A (JObj (AList.update ''participants'' (JList (ps @ [JStr e])) r)) acts)\<rparr>)))"
    from e have v: "JStr e \<notin> set ps \<and> JList (ps @ [JStr e]) = JList (ps @ [JStr e]) \<or>
        JList (ps @ [JStr e]) = JList (remove1 (JStr e) ps)"
      by simp
    from effect_weaken [OF R] have "succeeded (fst (handle req s)) = (w = Written)"
      and "w \<noteq> Written \<longrightarrow> fst (handle req s) = Inl (Unhandled OSError)"
      and "snd (handle req s) =
        snd (save_activities w
           (JObj (AList.update A (JObj (AList.update ''participants'' (JList (ps @ [JStr e])) r)) acts))
           (s\<lparr>activities :=
               JObj (AList.update A (JObj (AList.update ''participants'' (JList (ps @ [JStr e])) r)) acts)\<rparr>))"
      unfolding req handle.simps by blast+
    with a v show ?thesis by (rule changed)
  qed
next
  assume req: "req = Unregister A e tok w"
  from unregister_effect [of A e tok w s] show ?thesis
  proof (elim disjE exE conjE)
    assume "snd (unregister_from_activity A e tok w s) = s"
      "\<not> succeeded (fst (unregister_from_activity A e tok w s))"
      "fst (unregister_from_activity A e tok w s) \<noteq> Inl (Unhandled OSError)"
    then show ?thesis by (intro same) (simp_all add: req)
  next
    fix acts r ps
    assume a: "activities s = JObj acts" "map_of acts A = Some (JObj r)"
      "dict_get r ''participants'' (JList []) = JList ps"
      and R: "unregister_from_activity A e tok w s =
          ((if w = Written
            then Inr (JObj [(''message'', JStr (''Unregistered '' @ e @ '' from '' @ A))])
            else Inl (Unhandled OSError)),
           snd (save_activities w
             (JObj (AList.update A (JObj (AList.update ''participants'' (JList (remove1 (JStr e) ps)) r)) acts))
             (s\<lparr>activities :=
                 JObj (AList.update A (JObj (AList.update ''participants'' (JList (remove1 (JStr e) ps)) r)) acts)\<rparr>)))"
    have v: "JStr e \<notin> set ps \<and> JList (remove1 (JStr e) ps) = JList (ps @ [JStr e]) \<or>
        JList (remove1 (JStr e) ps) = JList (remove1 (JStr e) ps)"
      by simp
    from effect_weaken [OF R] have "succeeded (fst (handle req s)) = (w = Written)"
      and "w \<noteq> Written \<longrightarrow> fst (handle req s) = Inl (Unhandled OSError)"
      and "snd (handle req s) =
        snd (save_activities w
           (JObj (AList.update A (JObj (AList.update ''participants'' (JList (remove1 (JStr e) ps)) r)) acts))
           (s\<lparr>activities :=
               JObj (AList.update A (JObj (AList.update ''participants'' (JList (remove1 (JStr e) ps)) r)) acts)\<rparr>))"
      unfolding req handle.simps by blast+
    with a v show ?thesis by (rule changed)
  qed
qed

lemma keys_update_present:
  "map_of al k = Some x \<Longrightarrow> map fst (AList.update k v al) = map fst al"
  by (force simp: update_keys dest: map_of_SomeD)

section \<open>Round trip\<close>

text \<open>
  Claim C1. For an activity \<open>A\<close> whose participants are the list \<open>P\<close> and an email \<open>e\<close>
  that is not in \<open>P\<close>, take a signup of \<open>e\<close> on \<open>A\<close> followed by an unregister of \<open>e\<close> on
  \<open>A\<close>, both with the token of an open session. Each of the two succeeds exactly when its
  write goes through. Whether or not it does, in between \<open>e\<close> is the last participant, and
  afterwards the participants of \<open>A\<close> are \<open>P\<close> again. When the record had the attribute to
  begin with, the whole registry is what it was.
\<close>

theorem signup_unregister_roundtrip:
  assumes "participants_of (activities s) A = Some (JList P)"
    and "JStr e \<notin> set P"
    and "teacher_sessions s t = Some u" and "t \<noteq> []"
  shows "let (r1, s1) = signup_for_activity A e (Some t) w1 s;
             (r2, s2) = unregister_from_activity A e (Some t) w2 s1
         in succeeded r1 = (w1 = Written) \<and>
            participants_of (activities s1) A = Some (JList (P @ [JStr e])) \<and>
            succeeded r2 = (w2 = Written) \<and>
            participants_of (activities s2) A = Some (JList P) \<and>
            (attribute_of (activities s) A ''participants'' = Some (JList P) \<longrightarrow>
               activities s2 = activities s)"
proof -
  from assms(1) obtain acts r where reg: "activities s = JObj acts"
    and rec: "map_of acts A = Some (JObj r)"
    and ps: "dict_get r ''participants'' (JList []) = JList P"
    by (auto dest: participants_ofD)
  define r1 where "r1 = AList.update ''participants'' (JList (P @ [JStr e])) r"
  define acts1 where "acts1 = AList.update A (JObj r1) acts"
  define s1 where "s1 = snd (save_activities w1 (JObj acts1) (s\<lparr>activities := JObj acts1\<rparr>))"
  have up: "signup_for_activity A e (Some t) w1 s =
      ((if w1 = Written
        then Inr (JObj [(''message'', JStr (''Signed up '' @ e @ '' for '' @ A))])
        else Inl (Unhandled OSError)), s1)"
    using signup_run [OF assms(3,4) reg rec ps, of e w1] assms(2)
    by (simp add: s1_def acts1_def r1_def)
  have tok1: "teacher_sessions s1 t = Some u" and reg1: "activities s1 = JObj acts1"
    using assms(3) by (simp_all add: s1_def save_activities_keeps)
  have rec1: "map_of acts1 A = Some (JObj r1)"
    by (simp add: acts1_def update_conv')
  have ps1: "dict_get r1 ''participants'' (JList []) = JList (P @ [JStr e])"
    by (simp add: r1_def dict_get_def update_conv')
  have undo: "remove1 (JStr e) (P @ [JStr e]) = P"
    using assms(2) by (simp add: remove1_append)
  define acts2 where "acts2 = AList.update A (JObj (AList.update ''participants'' (JList P) r)) acts"
  define s2 where "s2 = snd (save_activities w2 (JObj acts2) (s1\<lparr>activities := JObj acts2\<rparr>))"
  have down: "unregister_from_activity A e (Some t) w2 s1 =
      ((if w2 = Written
        then Inr (JObj [(''message'', JStr (''Unregistered '' @ e @ '' from '' @ A))])
        else Inl (Unhandled OSError)), s2)"
    using unregister_run [OF tok1 assms(4) reg1 rec1 ps1, of e w2]
    by (simp add: undo s2_def acts2_def acts1_def r1_def)
  have reg2: "activities s2 = JObj acts2"
    by (simp add: s2_def save_activities_keeps)
  have same: "activities s2 = activities s"
    if "attribute_of (activities s) A ''participants'' = Some (JList P)"
  proof -
    from that have "map_of r ''participants'' = Some (JList P)"
      by (simp add: attribute_of_def reg rec)
    then have "AList.update ''participants'' (JList P) r = r"
      by (rule update_triv)
    then have "acts2 = acts"
      by (simp add: acts2_def rec update_triv)
    then show ?thesis by (simp add: reg2 reg)
  qed
  have "participants_of (activities s1) A = Some (JList (P @ [JStr e]))"
    by (simp add: reg1 acts1_def r1_def participants_of_update)
  moreover have "participants_of (activities s2) A = Some (JList P)"
    by (simp add: reg2 acts2_def participants_of_update)
  ultimately show ?thesis
    using same by (simp add: up down succeeded_def)
qed

theorem signup_unregister_roundtrip_witness:
  "let (r1, s1) = signup_for_activity ''Chess Club'' ''new@student.edu'' (Some ''t0'') Written
                    example_state;
       (r2, s2) = unregister_from_activity ''Chess Club'' ''new@student.edu'' (Some ''t0'') Written s1
   in succeeded r1 \<and>
      participants_of (activities s1) ''Chess Club'' = Some (JList [JStr ''a@x.edu'', JStr ''new@student.edu'']) \<and>
      succeeded r2 \<and>
      participants_of (activities s2) ''Chess Club'' = Some (JList [JStr ''a@x.edu'']) \<and>
      activities s2 = activities example_state"
  using signup_unregister_roundtrip [of example_state "''Chess Club''" "[JStr ''a@x.edu'']"
      "''new@student.edu''" "''t0''" "JStr ''ms1''" Written Written]
  by (simp add: example_state_def example_registry_def participants_of_def attribute_of_def
      dict_get_def split_beta Let_def succeeded_def)

section \<open>Rejected requests\<close>

text \<open>
  Claim C2. With the token of an open session and an activity \<open>A\<close> whose participants are
  the list \<open>P\<close> (an absent attribute counts as the empty list): a signup of an email that
  is in \<open>P\<close> raises 400 and leaves the whole state as it was, and an unregister of an email
  that is not in \<open>P\<close> raises 400 and leaves the whole state as it was.
\<close>

theorem repeated_transition_rejected:
  assumes "participants_of (activities s) A = Some (JList P)"
    and "teacher_sessions s t = Some u" and "t \<noteq> []"
  shows "(JStr e \<in> set P \<longrightarrow>
            signup_for_activity A e (Some t) w s =
              (Inl (HTTPException 400 ''Student is already signed up''), s)) \<and>
         (JStr e \<notin> set P \<longrightarrow>
            unregister_from_activity A e (Some t) w s =
              (Inl (HTTPException 400 ''Student is not signed up for this activity''), s))"
proof -
  from assms(1) obtain acts r where reg: "activities s = JObj acts"
    and rec: "map_of acts A = Some (JObj r)"
    and ps: "dict_get r ''participants'' (JList []) = JList P"
    by (auto dest: participants_ofD)
  show ?thesis
    using signup_run [OF assms(2,3) reg rec ps, of e w]
      unregister_run [OF assms(2,3) reg rec ps, of e w]
    by simp
qed

theorem repeated_transition_rejected_witness:
  "signup_for_activity ''Chess Club'' ''a@x.edu'' (Some ''t0'') Written example_state =
     (Inl (HTTPException 400 ''Student is already signed up''), example_state) \<and>
   unregister_from_activity ''Art'' ''a@x.edu'' (Some ''t0'') Written example_state =
     (Inl (HTTPException 400 ''Student is not signed up for this activity''), example_state)"
  using repeated_transition_rejected [of example_state "''Chess Club''" "[JStr ''a@x.edu'']"
      "''t0''" "JStr ''ms1''" "''a@x.edu''" Written]
    repeated_transition_rejected [of example_state "''Art''" "[]"
      "''t0''" "JStr ''ms1''" "''a@x.edu''" Written]
  by (simp add: example_state_def example_registry_def participants_of_def dict_get_def)

text \<open>
  Claim C3. A signup or an unregister without the token header, or with a token that the
  session registry does not have, raises 401 and leaves the state as it was, whatever the
  activity name and the email are: the token is looked at before anything else.
\<close>

theorem bad_token_rejected_first:
  assumes "tok = None \<or> (\<exists>t. tok = Some t \<and> teacher_sessions s t = None)"
  shows "signup_for_activity A e tok w s = (Inl (HTTPException 401 ''admin token required''), s) \<and>
         unregister_from_activity A e tok w s = (Inl (HTTPException 401 ''admin token required''), s)"
  using assms
  by (auto simp: signup_for_activity_def unregister_from_activity_def)

theorem bad_token_rejected_first_witness:
  "signup_for_activity ''No Such Club'' ''a@x.edu'' None Written example_state =
     (Inl (HTTPException 401 ''admin token required''), example_state) \<and>
   unregister_from_activity ''Art'' ''a@x.edu'' (Some ''stale'') Written example_state =
     (Inl (HTTPException 401 ''admin token required''), example_state)"
  using bad_token_rejected_first [of None example_state "''No Such Club''" "''a@x.edu''" Written]
    bad_token_rejected_first [of "Some ''stale''" example_state "''Art''" "''a@x.edu''" Written]
  by (simp add: example_state_def)

text \<open>
  Claim C10. When the record of an activity has no participants attribute, a signup of any
  email with the token of an open session gives the record the attribute, holding exactly
  that email, and succeeds exactly when the write goes through; an unregister of any email
  raises 400 and leaves the state as it was.
\<close>

theorem missing_participants_attribute:
  assumes "activities s = JObj acts" and "map_of acts A = Some (JObj r)"
    and "map_of r ''participants'' = None"
    and "teacher_sessions s t = Some u" and "t \<noteq> []"
  shows "succeeded (fst (signup_for_activity A e (Some t) w s)) = (w = Written) \<and>
         attribute_of (activities (snd (signup_for_activity A e (Some t) w s))) A ''participants''
           = Some (JList [JStr e]) \<and>
         unregister_from_activity A e (Some t) w s =
           (Inl (HTTPException 400 ''Student is not signed up for this activity''), s)"
proof -
  have ps: "dict_get r ''participants'' (JList []) = JList []"
    using assms(3) by (simp add: dict_get_def)
  show ?thesis
    using signup_run [OF assms(4,5,1,2) ps, of e w] unregister_run [OF assms(4,5,1,2) ps, of e w]
    by (simp add: attribute_of_def update_conv' succeeded_def save_activities_keeps)
qed

theorem missing_participants_attribute_witness:
  "succeeded (fst (signup_for_activity ''Art'' ''b@x.edu'' (Some ''t0'') Written example_state)) \<and>
   attribute_of (activities (snd (signup_for_activity ''Art'' ''b@x.edu'' (Some ''t0'') Written
      example_state))) ''Art'' ''participants'' = Some (JList [JStr ''b@x.edu'']) \<and>
   unregister_from_activity ''Art'' ''b@x.edu'' (Some ''t0'') Written example_state =
     (Inl (HTTPException 400 ''Student is not signed up for this activity''), example_state)"
  using missing_participants_attribute [of example_state
      "[(''Chess Club'', JObj [(''description'', JStr ''Learn strategies''),
                  (''participants'', JList [JStr ''a@x.edu''])]),
           (''Art'', JObj [(''max_participants'', JInt 12)])]"
      "''Art''" "[(''max_participants'', JInt 12)]" "''t0''" "JStr ''ms1''" "''b@x.edu''" Written]
  by (simp add: example_state_def example_registry_def)

section \<open>Frame of the registry\<close>

text \<open>
  Claim C6. No request changes the names of the activities. A request that is not a signup
  or an unregister, or that fails otherwise than in the write, leaves the registry as it
  was. A signup or an unregister on \<open>A\<close>, successful or not, leaves what the registry holds
  under every other name, and every attribute of \<open>A\<close> other than the participants, as they
  were.
\<close>

theorem registry_frame:
  "activity_names (activities (snd (handle req s))) = activity_names (activities s) \<and>
   (\<not> mutating req \<or>
    (\<not> succeeded (fst (handle req s)) \<and> fst (handle req s) \<noteq> Inl (Unhandled OSError)) \<longrightarrow>
      activities (snd (handle req s)) = activities s) \<and>
   (req = Signup A e tok w \<or> req = Unregister A e tok w \<longrightarrow>
      (\<forall>B. B \<noteq> A \<longrightarrow>
         py_getitem (activities (snd (handle req s))) B = py_getitem (activities s) B) \<and>
      (\<forall>k. k \<noteq> ''participants'' \<longrightarrow>
         attribute_of (activities (snd (handle req s))) A k = attribute_of (activities s) A k))"
proof (intro conjI impI)
  show "activity_names (activities (snd (handle req s))) = activity_names (activities s)"
  proof (cases "mutating req")
    case True
    then obtain A' e' tok' w' where req: "req = Signup A' e' tok' w' \<or> req = Unregister A' e' tok' w'"
      by (cases req) auto
    then show ?thesis
    proof (rule mutation_effect [of req A' e' tok' w' s])
      assume "snd (handle req s) = s"
      then show ?thesis by simp
    next
      fix acts r v ps
      assume "activities s = JObj acts" "map_of acts A' = Some (JObj r)"
        "snd (handle req s) =
          snd (save_activities w'
             (JObj (AList.update A' (JObj (AList.update ''participants'' v r)) acts))
             (s\<lparr>activities :=
                 JObj (AList.update A' (JObj (AList.update ''participants'' v r)) acts)\<rparr>))"
      then show ?thesis
        by (simp add: activity_names_def keys_update_present save_activities_keeps)
    qed
  next
    case False
    then show ?thesis by (simp add: handle_not_mutating)
  qed
next
  assume a: "\<not> mutating req \<or>
    (\<not> succeeded (fst (handle req s)) \<and> fst (handle req s) \<noteq> Inl (Unhandled OSError))"
  show "activities (snd (handle req s)) = activities s"
  proof (cases "mutating req")
    case True
    then obtain A' e' tok' w' where req: "req = Signup A' e' tok' w' \<or> req = Unregister A' e' tok' w'"
      by (cases req) auto
    then show ?thesis
    proof (rule mutation_effect [of req A' e' tok' w' s])
      assume "snd (handle req s) = s"
      then show ?thesis by simp
    next
      fix acts r v ps
      assume "succeeded (fst (handle req s)) = (w' = Written)"
        "w' \<noteq> Written \<longrightarrow> fst (handle req s) = Inl (Unhandled OSError)"
      with a True show ?thesis by auto
    qed
  next
    case False
    then show ?thesis by (simp add: handle_not_mutating)
  qed
next
  assume req: "req = Signup A e tok w \<or> req = Unregister A e tok w"
  then have "(\<forall>B. B \<noteq> A \<longrightarrow>
       py_getitem (activities (snd (handle req s))) B = py_getitem (activities s) B) \<and>
    (\<forall>k. k \<noteq> ''participants'' \<longrightarrow>
       attribute_of (activities (snd (handle req s))) A k = attribute_of (activities s) A k)"
  proof (rule mutation_effect [of req A e tok w s])
    assume "snd (handle req s) = s"
    then show ?thesis by simp
  next
    fix acts r v ps
    assume "activities s = JObj acts" "map_of acts A = Some (JObj r)"
      "snd (handle req s) =
        snd (save_activities w
           (JObj (AList.update A (JObj (AList.update ''participants'' v r)) acts))
           (s\<lparr>activities :=
               JObj (AList.update A (JObj (AList.update ''participants'' v r)) acts)\<rparr>))"
    then show ?thesis
      by (simp add: py_getitem_def attribute_of_def update_conv' save_activities_keeps)
  qed
  then show "\<forall>B. B \<noteq> A \<longrightarrow>
       py_getitem (activities (snd (handle req s))) B = py_getitem (activities s) B"
    and "\<forall>k. k \<noteq> ''participants'' \<longrightarrow>
       attribute_of (activities (snd (handle req s))) A k = attribute_of (activities s) A k"
    by blast+
qed

theorem registry_frame_witness:
  "activity_names (activities (snd (handle (Signup ''Art'' ''b@x.edu'' (Some ''t0'') Written)
       example_state)))
     = [''Chess Club'', ''Art''] \<and>
   succeeded (fst (handle (Signup ''Art'' ''b@x.edu'' (Some ''t0'') Written) example_state)) \<and>
   py_getitem (activities (snd (handle (Signup ''Art'' ''b@x.edu'' (Some ''t0'') Written)
       example_state))) ''Chess Club''
     = py_getitem (activities example_state) ''Chess Club'' \<and>
   attribute_of (activities (snd (handle (Signup ''Art'' ''b@x.edu'' (Some ''t0'') Written)
       example_state))) ''Art'' ''max_participants''
     = Some (JInt 12)"
  using registry_frame [of "Signup ''Art'' ''b@x.edu'' (Some ''t0'') Written" example_state
      "''Art''" "''b@x.edu''" "Some ''t0''" Written]
  by (simp add: example_state_def example_registry_def activity_names_def succeeded_def
      signup_for_activity_def py_getitem_def py_get_def dict_get_def setdefault_append_def
      store_activity_def save_activities_def attribute_of_def Let_def)

section \<open>The catalog file follows the registry\<close>






section \<open>No email twice\<close>

lemma emails_append: "emails (xs @ ys) = emails xs @ emails ys"
  by (induction xs rule: emails.induct) simp_all

lemma set_emails: "e \<in> set (emails ps) \<longleftrightarrow> JStr e \<in> set ps"
  by (induction ps rule: emails.induct) auto

lemma emails_remove1: "emails (remove1 (JStr e) ps) = remove1 e (emails ps)"
  by (induction ps rule: emails.induct) auto

lemma list_all_update:
  "list_all P al \<Longrightarrow> P (k, v) \<Longrightarrow> list_all P (AList.update k v al)"
  by (induction al) auto

lemma handle_keeps_unique:
  assumes "unique_participants (activities s)"
  shows "unique_participants (activities (snd (handle req s)))"
proof (cases "mutating req")
  case True
  then obtain A e tok w where req: "req = Signup A e tok w \<or> req = Unregister A e tok w"
    by (cases req) auto
  then show ?thesis
  proof (rule mutation_effect [of req A e tok w s])
    assume "snd (handle req s) = s"
    with assms show ?thesis by simp
  next
    fix acts r v ps
    assume reg: "activities s = JObj acts"
      and rec: "map_of acts A = Some (JObj r)"
      and ps: "dict_get r ''participants'' (JList []) = JList ps"
      and v: "JStr e \<notin> set ps \<and> v = JList (ps @ [JStr e]) \<or> v = JList (remove1 (JStr e) ps)"
      and "snd (handle req s) =
        snd (save_activities w
           (JObj (AList.update A (JObj (AList.update ''participants'' v r)) acts))
           (s\<lparr>activities :=
               JObj (AList.update A (JObj (AList.update ''participants'' v r)) acts)\<rparr>))"
    then have s': "activities (snd (handle req s)) =
        JObj (AList.update A (JObj (AList.update ''participants'' v r)) acts)"
      by (simp add: save_activities_keeps)
    from assms reg have all: "list_all (\<lambda>kv. unique_in_record (snd kv)) acts"
      by (simp add: unique_participants_def)
    from rec have "(A, JObj r) \<in> set acts" by (rule map_of_SomeD)
    with all have "unique_in_record (JObj r)"
      by (auto simp: list_all_iff)
    with ps have old: "distinct (emails ps)"
      by (auto simp: unique_in_record_def dict_get_def split: option.splits)
    from v have "\<exists>qs. v = JList qs \<and> distinct (emails qs)"
    proof
      assume "JStr e \<notin> set ps \<and> v = JList (ps @ [JStr e])"
      with old show ?thesis by (simp add: emails_append set_emails)
    next
      assume "v = JList (remove1 (JStr e) ps)"
      with old show ?thesis by (simp add: emails_remove1)
    qed
    then have "unique_in_record (JObj (AList.update ''participants'' v r))"
      by (auto simp: unique_in_record_def update_conv')
    with all have "list_all (\<lambda>kv. unique_in_record (snd kv))
        (AList.update A (JObj (AList.update ''participants'' v r)) acts)"
      by (simp add: list_all_update)
    then show ?thesis by (simp add: s' unique_participants_def)
  qed
next
  case False
  with assms show ?thesis by (simp add: handle_not_mutating)
qed

text \<open>
  Claim C8. If no email occurs twice in the participants list of any record, that is still
  so after any sequence of requests.
\<close>

theorem unique_participants_preserved:
  "unique_participants (activities s) \<Longrightarrow> unique_participants (activities (serve rs s))"
proof (induction rs arbitrary: s)
  case Nil
  then show ?case by simp
next
  case (Cons r rs)
  from Cons.prems have "unique_participants (activities (snd (handle r s)))"
    by (rule handle_keeps_unique)
  then show ?case by (simp add: Cons.IH)
qed

theorem unique_participants_preserved_witness:
  "unique_participants (activities example_state) \<and>
   unique_participants (activities (serve
      [Signup ''Chess Club'' ''b@x.edu'' (Some ''t0'') Written,
       Signup ''Chess Club'' ''b@x.edu'' (Some ''t0'') Written,
       Signup ''Chess Club'' ''c@x.edu'' (Some ''t0'') DumpFails,
       Unregister ''Chess Club'' ''a@x.edu'' (Some ''t0'') Written] example_state))"
proof -
  have h: "unique_participants (activities example_state)"
    by (simp add: example_state_def example_registry_def unique_participants_def unique_in_record_def)
  show ?thesis
    by (rule conjI [OF h unique_participants_preserved [OF h]])
qed

section \<open>Login\<close>

lemma admin_login_400:
  "\<not> (truthy (dict_get payload ''username'' JNull) \<and> truthy (dict_get payload ''password'' JNull)) \<Longrightarrow>
   admin_login payload uuid4 s = (Inl (HTTPException 400 ''username and password required''), s)"
  by (auto simp: admin_login_def Let_def)

lemma admin_login_not_400:
  "truthy (dict_get payload ''username'' JNull) \<Longrightarrow> truthy (dict_get payload ''password'' JNull) \<Longrightarrow>
   status (fst (admin_login payload uuid4 s)) \<in> {200, 401, 500}"
  by (auto simp: admin_login_def Let_def split: sum.splits bool.splits)

lemma match_teacher_equal:
  "list_all is_object ts \<Longrightarrow>
   match_teacher ts u p = Inr (list_ex (credentials_equal u p) ts)"
proof (induction ts)
  case Nil
  then show ?case by simp
next
  case (Cons t ts)
  then obtain d where "t = JObj d"
    by (cases t) (simp_all add: is_object_def)
  with Cons show ?case
    by (auto simp: py_get_def credentials_equal_def)
qed

text \<open>
  Claim C4, as the code has it. A login raises 400 exactly when the username or the password
  is falsy for Python: absent, or present as \<^verbatim>\<open>null\<close>, \<^verbatim>\<open>false\<close>, \<^verbatim>\<open>0\<close>, an empty string,
  an empty list or an empty object. With both truthy and a teachers list made of objects, the
  login returns the generated token, recorded under the username, when some entry is
  \<^verbatim>\<open>==\<close> to the payload on both fields, and raises 401 with the state as it was when none
  is.
\<close>

theorem login_400_iff_falsy:
  "(status (fst (admin_login payload uuid4 s)) = 400 \<longleftrightarrow>
      \<not> (truthy (dict_get payload ''username'' JNull) \<and>
         truthy (dict_get payload ''password'' JNull))) \<and>
   (truthy (dict_get payload ''username'' JNull) \<and> truthy (dict_get payload ''password'' JNull) \<and>
    load_teachers s = Inr (JList ts) \<and> list_all is_object ts \<longrightarrow>
      admin_login payload uuid4 s =
        (if list_ex (credentials_equal (dict_get payload ''username'' JNull)
                       (dict_get payload ''password'' JNull)) ts
         then (Inr (JObj [(''token'', JStr uuid4)]),
               s\<lparr>teacher_sessions :=
                   (teacher_sessions s)(uuid4 \<mapsto> dict_get payload ''username'' JNull)\<rparr>)
         else (Inl (HTTPException 401 ''invalid credentials''), s)))"
proof (intro conjI impI)
  show "status (fst (admin_login payload uuid4 s)) = 400 \<longleftrightarrow>
      \<not> (truthy (dict_get payload ''username'' JNull) \<and>
         truthy (dict_get payload ''password'' JNull))"
  proof (cases "truthy (dict_get payload ''username'' JNull) \<and>
      truthy (dict_get payload ''password'' JNull)")
    case True
    then have "status (fst (admin_login payload uuid4 s)) \<in> {200, 401, 500}"
      by (intro admin_login_not_400) simp_all
    with True show ?thesis by auto
  next
    case False
    then show ?thesis by (simp add: admin_login_400)
  qed
next
  assume "truthy (dict_get payload ''username'' JNull) \<and>
    truthy (dict_get payload ''password'' JNull) \<and>
    load_teachers s = Inr (JList ts) \<and> list_all is_object ts"
  then show "admin_login payload uuid4 s =
        (if list_ex (credentials_equal (dict_get payload ''username'' JNull)
                       (dict_get payload ''password'' JNull)) ts
         then (Inr (JObj [(''token'', JStr uuid4)]),
               s\<lparr>teacher_sessions :=
                   (teacher_sessions s)(uuid4 \<mapsto> dict_get payload ''username'' JNull)\<rparr>)
         else (Inl (HTTPException 401 ''invalid credentials''), s))"
    by (simp add: admin_login_def Let_def match_teacher_equal)
qed

theorem login_400_iff_falsy_witness:
  "status (fst (admin_login [(''username'', JStr ''ms1'')] ''t1'' example_state)) = 400 \<and>
   status (fst (admin_login [(''username'', JStr ''ms1''), (''password'', JInt 0)] ''t1''
                  example_state)) = 400 \<and>
   admin_login [(''username'', JStr ''ms1''), (''password'', JStr ''pass123'')] ''t1''
       example_state =
     (Inr (JObj [(''token'', JStr ''t1'')]),
      example_state\<lparr>teacher_sessions := [''t0'' \<mapsto> JStr ''ms1'', ''t1'' \<mapsto> JStr ''ms1'']\<rparr>) \<and>
   admin_login [(''username'', JStr ''ms1''), (''password'', JStr ''pass124'')] ''t1''
       example_state =
     (Inl (HTTPException 401 ''invalid credentials''), example_state) \<and>
   fst (admin_login [(''username'', JInt 7), (''password'', JInt 1)] ''t1''
       (example_state\<lparr>TEACHERS_FILE := Some (JSONText numeric_teachers)\<rparr>)) =
     Inr (JObj [(''token'', JStr ''t1'')]) \<and>
   fst (admin_login [(''username'', JInt 8), (''password'', JInt 1)] ''t1''
       (example_state\<lparr>TEACHERS_FILE := Some (JSONText numeric_teachers)\<rparr>)) =
     Inl (HTTPException 401 ''invalid credentials'')"
  using login_400_iff_falsy [of "[(''username'', JStr ''ms1'')]" "''t1''" example_state]
    login_400_iff_falsy [of "[(''username'', JStr ''ms1''), (''password'', JInt 0)]" "''t1''"
      example_state]
    login_400_iff_falsy [of "[(''username'', JStr ''ms1''), (''password'', JStr ''pass123'')]"
      "''t1''" example_state
      "[JObj [(''username'', JStr ''ms1''), (''password'', JStr ''pass123'')]]"]
    login_400_iff_falsy [of "[(''username'', JStr ''ms1''), (''password'', JStr ''pass124'')]"
      "''t1''" example_state
      "[JObj [(''username'', JStr ''ms1''), (''password'', JStr ''pass123'')]]"]
    login_400_iff_falsy [of "[(''username'', JInt 7), (''password'', JInt 1)]"
      "''t1''" "example_state\<lparr>TEACHERS_FILE := Some (JSONText numeric_teachers)\<rparr>"
      "[JObj [(''username'', JInt 7), (''password'', JBool True)]]"]
    login_400_iff_falsy [of "[(''username'', JInt 8), (''password'', JInt 1)]"
      "''t1''" "example_state\<lparr>TEACHERS_FILE := Some (JSONText numeric_teachers)\<rparr>"
      "[JObj [(''username'', JInt 7), (''password'', JBool True)]]"]
  by (simp add: dict_get_def load_teachers_def py_get_def example_state_def example_teachers_def
      numeric_teachers_def is_object_def credentials_equal_def)

text \<open>
  The claim as it is written, "exactly when a field is absent", fails on a payload that has
  both fields, the username being the empty string: the answer is 400.
\<close>

theorem login_400_present_fields_counterexample:
  "\<not> (status (fst (admin_login [(''username'', JStr ''''), (''password'', JStr ''pass123'')]
                    ''t1'' example_state)) = 400 \<longleftrightarrow>
      (map_of [(''username'', JStr ''''), (''password'', JStr ''pass123'')] ''username'' = None \<or>
       map_of [(''username'', JStr ''''), (''password'', JStr ''pass123'')] ''password'' = None))"
  by (simp add: admin_login_def dict_get_def)

lemma py_eq_str: "py_eq x (JStr u) = (x = JStr u)"
  by (cases x) simp_all

lemma match_teacher_objects:
  "list_all is_object ts \<Longrightarrow>
   match_teacher ts (JStr u) (JStr p) = Inr (list_ex (credentials_match u p) ts)"
proof (induction ts)
  case Nil
  then show ?case by simp
next
  case (Cons t ts)
  then obtain d where "t = JObj d"
    by (cases t) (simp_all add: is_object_def)
  with Cons show ?case
    by (auto simp: py_get_def dict_get_def py_eq_str credentials_match_def split: option.splits)
qed

text \<open>
  Claim C5, as the code has it. When the username and the password of the payload are
  non-empty strings and the teachers list is made of objects, the login succeeds exactly when
  some entry has that username and that password; it then returns the generated token and
  records it in the session registry under that username. Otherwise it raises 401 and the
  state is as it was.
\<close>

theorem login_by_credentials:
  assumes "dict_get payload ''username'' JNull = JStr u" and "u \<noteq> []"
    and "dict_get payload ''password'' JNull = JStr p" and "p \<noteq> []"
    and "load_teachers s = Inr (JList ts)" and "list_all is_object ts"
  shows "admin_login payload uuid4 s =
     (if list_ex (credentials_match u p) ts
      then (Inr (JObj [(''token'', JStr uuid4)]),
            s\<lparr>teacher_sessions := (teacher_sessions s)(uuid4 \<mapsto> JStr u)\<rparr>)
      else (Inl (HTTPException 401 ''invalid credentials''), s))"
  using assms by (simp add: admin_login_def match_teacher_objects)

theorem login_by_credentials_witness:
  "admin_login [(''username'', JStr ''ms1''), (''password'', JStr ''pass123'')] ''t1'' example_state =
     (Inr (JObj [(''token'', JStr ''t1'')]),
      example_state\<lparr>teacher_sessions := (teacher_sessions example_state)(''t1'' \<mapsto> JStr ''ms1'')\<rparr>) \<and>
   admin_login [(''username'', JStr ''ms1''), (''password'', JStr ''Pass123'')] ''t1'' example_state =
     (Inl (HTTPException 401 ''invalid credentials''), example_state)"
  using login_by_credentials [of "[(''username'', JStr ''ms1''), (''password'', JStr ''pass123'')]"
      "''ms1''" "''pass123''" example_state
      "[JObj [(''username'', JStr ''ms1''), (''password'', JStr ''pass123'')]]" "''t1''"]
    login_by_credentials [of "[(''username'', JStr ''ms1''), (''password'', JStr ''Pass123'')]"
      "''ms1''" "''Pass123''" example_state
      "[JObj [(''username'', JStr ''ms1''), (''password'', JStr ''pass123'')]]" "''t1''"]
  by (simp add: dict_get_def load_teachers_def py_get_def example_state_def example_teachers_def
      is_object_def credentials_match_def)

text \<open>
  The claim as it is written, for every payload that has both fields, fails when the
  password is the empty string: no entry matches, and the answer is 400 instead of 401.
\<close>

theorem login_empty_password_counterexample:
  "map_of [(''username'', JStr ''ms1''), (''password'', JStr '''')] ''username'' = Some (JStr ''ms1'') \<and>
   map_of [(''username'', JStr ''ms1''), (''password'', JStr '''')] ''password'' = Some (JStr '''') \<and>
   load_teachers example_state =
     Inr (JList [JObj [(''username'', JStr ''ms1''), (''password'', JStr ''pass123'')]]) \<and>
   \<not> list_ex (credentials_match ''ms1'' '''')
        [JObj [(''username'', JStr ''ms1''), (''password'', JStr ''pass123'')]] \<and>
   status (fst (admin_login [(''username'', JStr ''ms1''), (''password'', JStr '''')] ''t1'' example_state))
     = 400"
  by (simp add: admin_login_def dict_get_def load_teachers_def py_get_def example_state_def
      example_teachers_def credentials_match_def)

section \<open>Loading the files\<close>

lemma admin_login_reads_file:
  assumes "TEACHERS_FILE s1 = TEACHERS_FILE s2"
  shows "fst (admin_login payload uuid4 s1) = fst (admin_login payload uuid4 s2)"
proof -
  from assms have "load_teachers s1 = load_teachers s2"
    by (simp add: load_teachers_def)
  then show ?thesis
    by (simp add: admin_login_def Let_def split: sum.splits bool.splits)
qed

text \<open>
  Claim C9. \<open>load_activities\<close> returns what the catalog file parses to when the file is
  there and the empty dictionary when it is not; \<open>load_teachers\<close> returns the value under
  \<^verbatim>\<open>teachers\<close> of the teachers file (the empty list without that key) when the file is
  there and the empty list when it is not. Nothing of the teachers file is kept in the
  state: the response of a login depends on the state only through the file as it is at
  that moment, and a login that has passed the field check fails when reading the file
  fails.
\<close>

theorem loaders_read_files:
  "(ACTIVITIES_FILE fs = None \<longrightarrow> load_activities fs = Inr (JObj [])) \<and>
   (ACTIVITIES_FILE fs = Some (JSONText v) \<longrightarrow> load_activities fs = Inr v) \<and>
   (TEACHERS_FILE fs = None \<longrightarrow> load_teachers fs = Inr (JList [])) \<and>
   (TEACHERS_FILE fs = Some (JSONText (JObj d)) \<longrightarrow>
      load_teachers fs = Inr (dict_get d ''teachers'' (JList []))) \<and>
   (TEACHERS_FILE s1 = TEACHERS_FILE s2 \<longrightarrow>
      fst (admin_login payload uuid4 s1) = fst (admin_login payload uuid4 s2)) \<and>
   (truthy (dict_get payload ''username'' JNull) \<and> truthy (dict_get payload ''password'' JNull) \<and>
    load_teachers s1 = Inl e \<longrightarrow>
      fst (admin_login payload uuid4 s1) = Inl (Unhandled e))"
proof (intro conjI impI)
  assume "TEACHERS_FILE s1 = TEACHERS_FILE s2"
  then show "fst (admin_login payload uuid4 s1) = fst (admin_login payload uuid4 s2)"
    by (rule admin_login_reads_file)
next
  assume "truthy (dict_get payload ''username'' JNull) \<and>
    truthy (dict_get payload ''password'' JNull) \<and> load_teachers s1 = Inl e"
  then show "fst (admin_login payload uuid4 s1) = Inl (Unhandled e)"
    by (simp add: admin_login_def Let_def)
qed (simp_all add: load_activities_def load_teachers_def py_get_def)

theorem loaders_read_files_witness:
  "load_activities example_state = Inr example_registry \<and>
   load_activities \<lparr>ACTIVITIES_FILE = None, TEACHERS_FILE = None\<rparr> = Inr (JObj []) \<and>
   load_teachers \<lparr>ACTIVITIES_FILE = None, TEACHERS_FILE = None\<rparr> = Inr (JList []) \<and>
   load_teachers example_state =
     Inr (JList [JObj [(''username'', JStr ''ms1''), (''password'', JStr ''pass123'')]]) \<and>
   fst (admin_login [(''username'', JStr ''ms1''), (''password'', JStr ''pass123'')] ''t1''
         (example_state\<lparr>TEACHERS_FILE := None\<rparr>)) =
   fst (admin_login [(''username'', JStr ''ms1''), (''password'', JStr ''pass123'')] ''t1''
         \<lparr>ACTIVITIES_FILE = None, TEACHERS_FILE = None, activities = JObj [],
          teacher_sessions = Map.empty\<rparr>) \<and>
   fst (admin_login [(''username'', JStr ''ms1''), (''password'', JStr ''pass123'')] ''t1''
         (example_state\<lparr>TEACHERS_FILE := Some NotJSON\<rparr>)) = Inl (Unhandled JSONDecodeError)"
  using loaders_read_files [of example_state example_registry
      "[(''teachers'', JList [JObj [(''username'', JStr ''ms1''), (''password'', JStr ''pass123'')]])]"
      "example_state\<lparr>TEACHERS_FILE := None\<rparr>"
      "\<lparr>ACTIVITIES_FILE = None, TEACHERS_FILE = None, activities = JObj [],
          teacher_sessions = Map.empty\<rparr>"
      "[(''username'', JStr ''ms1''), (''password'', JStr ''pass123'')]" "''t1''"]
    loaders_read_files [of "\<lparr>ACTIVITIES_FILE = None, TEACHERS_FILE = None\<rparr>"]
    loaders_read_files [of example_state example_registry
      "[(''teachers'', JList [JObj [(''username'', JStr ''ms1''), (''password'', JStr ''pass123'')]])]"
      "example_state\<lparr>TEACHERS_FILE := Some NotJSON\<rparr>" example_state
      "[(''username'', JStr ''ms1''), (''password'', JStr ''pass123'')]" "''t1''" JSONDecodeError]
  by (simp add: example_state_def example_teachers_def dict_get_def load_teachers_def)

end
